theory Spec2Isabelle
  imports Complex_Main "HOL-Library.Word"
begin

section \<open>Python strings\<close>

text \<open>
  A Python \<open>str\<close> is a sequence of Unicode code points; it is modelled as a list of
  natural numbers, one per code point.  \<open>ascii\<close> turns an Isabelle string literal
  into such a list, so that examples stay readable.
\<close>

type_synonym pystr = "nat list"

definition ascii :: "string \<Rightarrow> pystr" where
  "ascii s = map of_char s"

definition is_ascii :: "nat \<Rightarrow> bool" where
  "is_ascii c \<longleftrightarrow> c < 128"

definition is_upper :: "nat \<Rightarrow> bool" where
  "is_upper c \<longleftrightarrow> 65 \<le> c \<and> c \<le> 90"

definition is_lower :: "nat \<Rightarrow> bool" where
  "is_lower c \<longleftrightarrow> 97 \<le> c \<and> c \<le> 122"

definition is_digit :: "nat \<Rightarrow> bool" where
  "is_digit c \<longleftrightarrow> 48 \<le> c \<and> c \<le> 57"

text \<open>The character class \<open>[a-zA-Z0-9_]\<close> of the two regular expressions.\<close>

definition word_char :: "nat \<Rightarrow> bool" where
  "word_char c \<longleftrightarrow> is_lower c \<or> is_upper c \<or> is_digit c \<or> c = 95"

definition ascii_lower :: "nat \<Rightarrow> nat" where
  "ascii_lower c = (if is_upper c then c + 32 else c)"

text \<open>
  \<open>unicodedata.normalize('NFKD', s)\<close> and \<open>str.lower\<close> consult the Unicode
  character database, which is not part of the repository.  On a string of ASCII
  characters both are known exactly (NFKD leaves it alone, \<open>lower\<close> maps
  \<open>A-Z\<close> to \<open>a-z\<close>); on any other string the database is a parameter.
\<close>

record unicode_db =
  nfkd_table :: "pystr \<Rightarrow> pystr"
  lower_table :: "pystr \<Rightarrow> pystr"

definition py_nfkd :: "unicode_db \<Rightarrow> pystr \<Rightarrow> pystr" where
  "py_nfkd U s = (if list_all is_ascii s then s else nfkd_table U s)"

definition py_lower :: "unicode_db \<Rightarrow> pystr \<Rightarrow> pystr" where
  "py_lower U s = (if list_all is_ascii s then map ascii_lower s else lower_table U s)"

text \<open>
  The fragment of the database that the worked examples need: the Cyrillic short i
  decomposes into the letter i and a combining breve, e with acute into e and a
  combining acute; the Cyrillic capitals are lowered by adding 32.
\<close>

definition sample_decompose :: "nat \<Rightarrow> pystr" where
  "sample_decompose c =
     (if c = 1081 then [1080, 774]
      else if c = 1049 then [1048, 774]
      else if c = 233 then [101, 769]
      else [c])"

definition sample_db :: unicode_db where
  "sample_db = \<lparr> nfkd_table = (\<lambda>s. concat (map sample_decompose s)),
                 lower_table = map (\<lambda>c. if 1040 \<le> c \<and> c \<le> 1071 then c + 32 else ascii_lower c) \<rparr>"

subsection \<open>\<open>pathlib\<close>: name, stem and suffix of a POSIX path\<close>

fun split_sep :: "nat \<Rightarrow> pystr \<Rightarrow> pystr list" where
  "split_sep c [] = [[]]"
| "split_sep c (x # xs) =
     (if x = c then [] # split_sep c xs
      else (case split_sep c xs of [] \<Rightarrow> [[x]] | p # ps \<Rightarrow> (x # p) # ps))"

text \<open>
  \<open>Path(s).name\<close>: the last component of the path, where empty components and
  \<open>.\<close> components are dropped when the path is parsed; the empty string when no
  component is left.
\<close>

definition path_name :: "pystr \<Rightarrow> pystr" where
  "path_name s =
     (case filter (\<lambda>p. p \<noteq> [] \<and> p \<noteq> [46]) (split_sep 47 s) of
        [] \<Rightarrow> []
      | p # ps \<Rightarrow> last (p # ps))"

text \<open>\<open>s.rfind(c)\<close>: the index of the last occurrence of \<open>c\<close>, or \<open>-1\<close>.\<close>

definition rfind :: "nat \<Rightarrow> pystr \<Rightarrow> int" where
  "rfind c s = int (length (dropWhile (\<lambda>x. x \<noteq> c) (rev s))) - 1"

text \<open>
  \<open>Path(s).suffix\<close> and \<open>Path(s).stem\<close> (Python 3.7 to 3.13): the name is cut at
  its last dot, unless that dot is the first or the last character of the name.
\<close>

definition path_suffix :: "pystr \<Rightarrow> pystr" where
  "path_suffix s =
     (let name = path_name s; i = rfind 46 name
      in if 0 < i \<and> i < int (length name) - 1 then drop (nat i) name else [])"

definition path_stem :: "pystr \<Rightarrow> pystr" where
  "path_stem s =
     (let name = path_name s; i = rfind 46 name
      in if 0 < i \<and> i < int (length name) - 1 then take (nat i) name else name)"

subsection \<open>Formatting the counter: \<open>f"{counter:03d}"\<close>\<close>

function digits10 :: "nat \<Rightarrow> pystr" where
  "digits10 n = (if n < 10 then [48 + n] else digits10 (n div 10) @ [48 + n mod 10])"
  by pat_completeness auto
termination
  by (relation "measure id") auto

declare digits10.simps [simp del]

definition zero_pad :: "nat \<Rightarrow> pystr \<Rightarrow> pystr" where
  "zero_pad w s = replicate (w - length s) 48 @ s"

text \<open>Width 3 counts the sign: \<open>-5\<close> is printed \<open>-05\<close>.\<close>

definition format_03d :: "int \<Rightarrow> pystr" where
  "format_03d n =
     (if n < 0 then 45 # zero_pad 2 (digits10 (nat (- n)))
      else zero_pad 3 (digits10 (nat n)))"

section \<open>normalize_name\<close>

text \<open>\<open>normalized.replace(' ', '_')\<close>: every space character becomes an underscore.\<close>

definition replace_spaces :: "pystr \<Rightarrow> pystr" where
  "replace_spaces s = map (\<lambda>c. if c = 32 then 95 else c) s"

text \<open>\<open>re.sub(r'[^a-zA-Z0-9_]', '', normalized)\<close>\<close>

definition remove_disallowed :: "pystr \<Rightarrow> pystr" where
  "remove_disallowed s = filter word_char s"

text \<open>\<open>re.sub(r'_+', '_', normalized)\<close>\<close>

fun collapse_underscores :: "pystr \<Rightarrow> pystr" where
  "collapse_underscores [] = []"
| "collapse_underscores [c] = [c]"
| "collapse_underscores (c # d # s) =
     (if c = 95 \<and> d = 95 then collapse_underscores (d # s)
      else c # collapse_underscores (d # s))"

text \<open>\<open>normalized.strip('_')\<close>\<close>

definition strip_underscores :: "pystr \<Rightarrow> pystr" where
  "strip_underscores s =
     rev (dropWhile (\<lambda>c. c = 95) (rev (dropWhile (\<lambda>c. c = 95) s)))"

text \<open>The stem after the five cleaning steps, before the fallback and the counter.\<close>

definition clean_stem :: "unicode_db \<Rightarrow> pystr \<Rightarrow> pystr" where
  "clean_stem U name =
     strip_underscores (collapse_underscores (remove_disallowed
       (replace_spaces (py_nfkd U (path_stem name)))))"

definition extension :: "unicode_db \<Rightarrow> pystr \<Rightarrow> pystr" where
  "extension U name = py_lower U (path_suffix name)"

definition normalize_name :: "unicode_db \<Rightarrow> pystr \<Rightarrow> int \<Rightarrow> pystr" where
  "normalize_name U name counter =
     (let normalized = clean_stem U name;
          normalized =
            (if normalized = [] then ascii ''unnamed_'' @ format_03d counter
             else if counter > 0 then normalized @ [95] @ format_03d counter
             else normalized)
      in normalized @ extension U name)"

text \<open>
  The destination naming charset of the specification,
  \<open>^[a-zA-Z0-9_]+(\.[a-z0-9]+)?$\<close>, as a predicate: a non-empty run of word
  characters, then nothing, or a dot and a non-empty run of lower-case letters and
  digits.  A dot is not a word character, so the first run ends where the regular
  expression's greedy \<open>+\<close> ends.
\<close>

definition matches_charset :: "pystr \<Rightarrow> bool" where
  "matches_charset s =
     (let stem = takeWhile word_char s; rest = dropWhile word_char s
      in stem \<noteq> [] \<and>
         (case rest of
            [] \<Rightarrow> True
          | c # ext \<Rightarrow> c = 46 \<and> ext \<noteq> [] \<and> list_all (\<lambda>x. is_lower x \<or> is_digit x) ext))"



text \<open>The first scenario of the specification: a Cyrillic file name.\<close>

definition kirillitsa_fayl_wav :: pystr where
  "kirillitsa_fayl_wav =
     [1050, 1080, 1088, 1080, 1083, 1083, 1080, 1094, 1072, 95, 1092, 1072, 1081, 1083]
     @ ascii ''.wav''"

section \<open>convert_audio_file\<close>

text \<open>
  \<open>sf.read\<close> returns the decoded samples as 64-bit floats and the sample rate.
  Every finite float is a rational number, and the samples are modelled as exact
  rationals: the rounding of the float operations is not modelled.  The array is kept
  channel by channel: one list per channel, all of the same length (the number of
  frames); a mono file has one channel.
\<close>

record audio =
  data :: "rat list list"
  sample_rate :: nat

record pcm16 =
  pcm_channels :: "int list list"
  pcm_rate :: nat

datatype conv_error =
    ReadError            \<comment> \<open>\<open>sf.read\<close> raised\<close>
  | ZeroDivisionError    \<comment> \<open>division by a sample rate of 0\<close>
  | ResampleError        \<comment> \<open>\<open>signal.resample\<close> raised\<close>
  | ValueError           \<comment> \<open>\<open>np.max\<close> of an array without elements\<close>
  | WriteError           \<comment> \<open>\<open>sf.write\<close> raised\<close>
  | UndefinedCast        \<comment> \<open>\<open>astype\<close> applied to \<open>nan\<close> or an infinity\<close>

text \<open>\<open>len(data)\<close>: the number of frames.\<close>

definition num_frames :: "rat list list \<Rightarrow> nat" where
  "num_frames d = (case d of [] \<Rightarrow> 0 | ch # _ \<Rightarrow> length ch)"

definition wf_audio :: "audio \<Rightarrow> bool" where
  "wf_audio a \<longleftrightarrow> data a \<noteq> [] \<and> list_all (\<lambda>ch. length ch = num_frames (data a)) (data a)"

definition silent :: "audio \<Rightarrow> bool" where
  "silent a \<longleftrightarrow> list_all (list_all (\<lambda>x. x = 0)) (data a)"

text \<open>
  \<open>min(xs, key=f)\<close> on a non-empty list, given as head and tail: the first element
  with the least key.
\<close>

definition py_min_key :: "('a \<Rightarrow> int) \<Rightarrow> 'a \<Rightarrow> 'a list \<Rightarrow> 'a" where
  "py_min_key key x xs = foldl (\<lambda>best y. if key y < key best then y else best) x xs"

text \<open>
  \<open>min(self.supported_sample_rates, key=lambda x: abs(x - current_sample_rate))\<close>
  with \<open>supported_sample_rates = [44100, 48000]\<close>.
\<close>

definition target_sample_rate :: "nat \<Rightarrow> nat" where
  "target_sample_rate current = py_min_key (\<lambda>x. \<bar>int x - int current\<bar>) 44100 [48000]"

text \<open>
  \<open>int(len(data) * target_sample_rate / current_sample_rate)\<close>: the true division
  of two non-negative integers, truncated by \<open>int\<close>.  (The float quotient has the
  same integer part as the exact one as long as the product is below \<open>2^53\<close>.)
\<close>

definition num_samples :: "nat \<Rightarrow> nat \<Rightarrow> nat \<Rightarrow> nat" where
  "num_samples n target current = (n * target) div current"

text \<open>
  \<open>scipy.signal.resample(x, num)\<close> is a library function, a parameter of the model:
  it is given one channel and the number of samples to produce, and either raises
  (\<open>None\<close>) or returns the resampled channel.  With \<open>axis=0\<close> it treats the
  columns of a two-dimensional array, the channels, one by one.
\<close>

type_synonym resampler = "rat list \<Rightarrow> nat \<Rightarrow> rat list option"

text \<open>What the library promises: \<open>num\<close> samples.\<close>

definition resample_contract :: "resampler \<Rightarrow> bool" where
  "resample_contract R \<longleftrightarrow>
     (\<forall>ch k. case R ch k of None \<Rightarrow> True | Some y \<Rightarrow> length y = k)"

text \<open>Fourier resampling is linear: silence of any length is resampled to silence.\<close>

definition resample_silence :: "resampler \<Rightarrow> bool" where
  "resample_silence R \<longleftrightarrow>
     (\<forall>n k. 0 < n \<and> 0 < k \<longrightarrow> R (replicate n 0) k = Some (replicate k 0))"

text \<open>
  A resampler to run the examples with: it repeats or drops samples
  (sample and hold), and refuses to produce an empty signal.
\<close>

definition hold_resample :: resampler where
  "hold_resample ch k =
     (if k = 0 \<or> ch = [] then None
      else Some (map (\<lambda>i. ch ! (i * length ch div k)) [0..<k]))"

text \<open>Lines 121 to 128: resample every channel if the rate has to change.\<close>

definition resample_data :: "resampler \<Rightarrow> rat list list \<Rightarrow> nat \<Rightarrow> nat \<Rightarrow> conv_error + rat list list" where
  "resample_data R d current target =
     (if current \<noteq> target then
        (if current = 0 then Inl ZeroDivisionError
         else case those (map (\<lambda>ch. R ch (num_samples (num_frames d) target current)) d) of
                None \<Rightarrow> Inl ResampleError
              | Some d' \<Rightarrow> Inr d')
      else Inr d)"

text \<open>\<open>np.max\<close> of a flat array; it raises on an array without elements.\<close>

definition py_max :: "rat list \<Rightarrow> rat option" where
  "py_max xs = (case xs of [] \<Rightarrow> None | x # ys \<Rightarrow> Some (fold max ys x))"

text \<open>\<open>np.max(np.abs(data))\<close>\<close>

definition peak :: "rat list list \<Rightarrow> rat option" where
  "peak d = py_max (map abs (concat d))"

text \<open>
  NumPy does not raise when a float is divided by 0: it warns, and the quotient is
  \<open>nan\<close> (for \<open>0 / 0\<close>) or an infinity.  A float that comes out of an
  arithmetic operation is therefore a finite number or \<open>NotFinite\<close>, and
  \<open>NotFinite\<close> stays what it is when it is multiplied by a positive constant.
\<close>

datatype npfloat = Finite rat | NotFinite

definition np_divide :: "rat \<Rightarrow> rat \<Rightarrow> npfloat" where
  "np_divide x y = (if y = 0 then NotFinite else Finite (x / y))"

definition np_multiply :: "npfloat \<Rightarrow> rat \<Rightarrow> npfloat" where
  "np_multiply v c = (case v of Finite x \<Rightarrow> Finite (x * c) | NotFinite \<Rightarrow> NotFinite)"

text \<open>
  Lines 135 and 136: \<open>data = data / np.max(np.abs(data)) * 0.95\<close> if the peak is
  greater than 0; otherwise the samples are passed on as they are.
\<close>

definition peak_normalize :: "rat list list \<Rightarrow> conv_error + npfloat list list" where
  "peak_normalize d =
     (case peak d of
        None \<Rightarrow> Inl ValueError
      | Some p \<Rightarrow>
          if p > 0 then Inr (map (map (\<lambda>x. np_multiply (np_divide x p) (95 / 100))) d)
          else Inr (map (map Finite) d))"

text \<open>
  \<open>astype(np.int16)\<close> is a C cast: the fraction is cut off (rounding towards zero),
  and a value outside the 16-bit range wraps around.
\<close>

definition trunc_zero :: "rat \<Rightarrow> int" where
  "trunc_zero x = (if 0 \<le> x then \<lfloor>x\<rfloor> else \<lceil>x\<rceil>)"

definition astype_int16 :: "rat \<Rightarrow> int" where
  "astype_int16 x = sint (word_of_int (trunc_zero x) :: 16 word)"

text \<open>Line 139: \<open>(data * 32767).astype(np.int16)\<close>, for one sample.\<close>

definition to_16bit :: "rat \<Rightarrow> int" where
  "to_16bit x = astype_int16 (x * 32767)"

text \<open>
  The same line for the whole array.  NumPy does not define what the cast of
  \<open>nan\<close> or of an infinity gives: there is no 16-bit array to speak of (\<open>None\<close>)
  as soon as one sample is not finite.
\<close>

definition to_16bit_np :: "npfloat \<Rightarrow> int option" where
  "to_16bit_np v = (case v of Finite x \<Rightarrow> Some (to_16bit x) | NotFinite \<Rightarrow> None)"

definition data_16bit :: "npfloat list list \<Rightarrow> int list list option" where
  "data_16bit d = those (map (\<lambda>ch. those (map to_16bit_np ch)) d)"

text \<open>
  The quantisation as the specification words it: \<open>round(sample * 32767)\<close>, clamped
  to the signed 16-bit range.
\<close>

definition spec_quantize :: "rat \<Rightarrow> int" where
  "spec_quantize s = max (- 32768) (min 32767 (round (s * 32767)))"

text \<open>The sample count as the specification words it.\<close>

definition spec_sample_count :: "nat \<Rightarrow> nat \<Rightarrow> nat \<Rightarrow> int" where
  "spec_sample_count n target current = round (of_nat (n * target) / of_nat current :: rat)"

text \<open>
  The body of \<open>convert_audio_file\<close> in \<open>roland_sp404_local_automation.py\<close>.  The
  two accesses to the file system are given by their outcome: what \<open>sf.read\<close>
  returned (\<open>None\<close> if it raised) and whether \<open>sf.write\<close> succeeds.  \<open>Inr out\<close>
  stands for the return value \<open>True\<close>, with \<open>out\<close> written to the output path;
  \<open>Inl e\<close> for \<open>False\<close>, returned by the \<open>except\<close> clause.  The one
  exception is \<open>Inl UndefinedCast\<close>: the code would write samples that NumPy does
  not define.  The guard of line 135 excludes it (lemma \<open>convert_never_undefined\<close>).
\<close>

definition convert_audio_file :: "resampler \<Rightarrow> audio option \<Rightarrow> bool \<Rightarrow> conv_error + pcm16" where
  "convert_audio_file R input write_ok =
     (case input of
        None \<Rightarrow> Inl ReadError
      | Some a \<Rightarrow>
          let target = target_sample_rate (sample_rate a) in
          (case resample_data R (data a) (sample_rate a) target of
             Inl e \<Rightarrow> Inl e
           | Inr d \<Rightarrow>
               (case peak_normalize d of
                  Inl e \<Rightarrow> Inl e
                | Inr d' \<Rightarrow>
                    (case data_16bit d' of
                       None \<Rightarrow> Inl UndefinedCast
                     | Some pcm \<Rightarrow>
                         if write_ok
                         then Inr \<lparr> pcm_channels = pcm, pcm_rate = target \<rparr>
                         else Inl WriteError))))"

text \<open>\<open>np.mean(data, axis=1)\<close>: the mean of the channels, frame by frame.\<close>

definition downmix :: "rat list list \<Rightarrow> rat list list" where
  "downmix d =
     [map (\<lambda>i. (\<Sum>ch\<leftarrow>d. ch ! i) / of_nat (length d)) [0..<num_frames d]]"

text \<open>
  \<open>convert_audio_file\<close> of \<open>roland_sp404_automation.py\<close>, the variant that reads
  from an SMB share: the same steps, with a downmix to mono after the resampling.
\<close>

definition smb_convert_audio_file :: "resampler \<Rightarrow> audio option \<Rightarrow> bool \<Rightarrow> conv_error + pcm16" where
  "smb_convert_audio_file R input write_ok =
     (case input of
        None \<Rightarrow> Inl ReadError
      | Some a \<Rightarrow>
          let target = target_sample_rate (sample_rate a) in
          (case resample_data R (data a) (sample_rate a) target of
             Inl e \<Rightarrow> Inl e
           | Inr d \<Rightarrow>
               (case peak_normalize (if length (data a) > 1 then downmix d else d) of
                  Inl e \<Rightarrow> Inl e
                | Inr d' \<Rightarrow>
                    (case data_16bit d' of
                       None \<Rightarrow> Inl UndefinedCast
                     | Some pcm \<Rightarrow>
                         if write_ok
                         then Inr \<lparr> pcm_channels = pcm, pcm_rate = target \<rparr>
                         else Inl WriteError))))"

section \<open>process_directory\<close>

text \<open>
  The source tree as \<open>process_directory\<close> meets it.  A file is given by its name
  and by what the two file accesses of \<open>convert_audio_file\<close> do on it; a directory
  by its name, by whether \<open>target_path.mkdir\<close> succeeds for it, and by what
  \<open>source_path.iterdir()\<close> yields (\<open>None\<close> if it raises); \<open>Other\<close> is an entry
  that is neither a file nor a directory.  Names are single path components, and
  \<open>is_file\<close> and \<open>is_dir\<close> are taken to answer without raising.
\<close>

datatype item =
    File pystr "audio option" bool
  | Dir pystr dir
  | Other pystr
and dir = Directory bool "item list option"

text \<open>
  What a run leaves behind: the files written (directory, name, content) and the lines
  logged at the three places that decide a claim.
\<close>

datatype event =
    Wrote "pystr list" pystr pcm16
  | ConversionError pystr
  | SkippedNonWav pystr
  | DirectoryError "pystr list"

text \<open>\<open>item.suffix.lower() == '.wav'\<close>\<close>

definition is_wav :: "unicode_db \<Rightarrow> pystr \<Rightarrow> bool" where
  "is_wav U name \<longleftrightarrow> py_lower U (path_suffix name) = ascii ''.wav''"

text \<open>
  \<open>process_directory\<close> returns the events and whether an exception left the call.
  \<open>mkdir\<close> is called before the \<open>try\<close>, so its exception does; everything after
  it is caught and logged inside the call.  \<open>process_items\<close> is the \<open>for\<close> loop,
  with the local variable \<open>file_counter\<close> as its state; an exception that leaves
  the recursive call ends the loop in the caller's \<open>except\<close> clause.
\<close>

function process_directory :: "unicode_db \<Rightarrow> resampler \<Rightarrow> dir \<Rightarrow> pystr list \<Rightarrow> event list \<times> bool"
  and process_items :: "unicode_db \<Rightarrow> resampler \<Rightarrow> pystr list \<Rightarrow> int \<Rightarrow> item list \<Rightarrow> event list"
where
  "process_directory U R d target_path =
     (case d of Directory mkdir_ok listing \<Rightarrow>
        if \<not> mkdir_ok then ([], True)
        else (case listing of
                None \<Rightarrow> ([DirectoryError target_path], False)
              | Some items \<Rightarrow> (process_items U R target_path 0 items, False)))"
| "process_items U R target_path file_counter [] = []"
| "process_items U R target_path file_counter (it # rest) =
     (case it of
        File name input write_ok \<Rightarrow>
          if is_wav U name then
            (case convert_audio_file R input write_ok of
               Inr out \<Rightarrow>
                 Wrote target_path (normalize_name U name file_counter) out
                   # process_items U R target_path (file_counter + 1) rest
             | Inl e \<Rightarrow> ConversionError name # process_items U R target_path file_counter rest)
          else SkippedNonWav name # process_items U R target_path file_counter rest
      | Dir name sub \<Rightarrow>
          (case process_directory U R sub (target_path @ [normalize_name U name 0]) of
             (events, True) \<Rightarrow> events @ [DirectoryError target_path]
           | (events, False) \<Rightarrow> events @ process_items U R target_path file_counter rest)
      | Other name \<Rightarrow> process_items U R target_path file_counter rest)"
  by pat_completeness auto

termination
  by (relation "measure (\<lambda>x. case x of
          Inl (U, R, d, target_path) \<Rightarrow> size d
        | Inr (U, R, target_path, file_counter, items) \<Rightarrow> size_list size items)")
    auto

text \<open>The files written, in order.\<close>

definition is_write :: "event \<Rightarrow> bool" where
  "is_write e = (case e of Wrote p n out \<Rightarrow> True | _ \<Rightarrow> False)"

definition writes :: "event list \<Rightarrow> event list" where
  "writes events = filter is_write events"

text \<open>The entries of a listing that are converted and written.\<close>

definition converts :: "unicode_db \<Rightarrow> resampler \<Rightarrow> item \<Rightarrow> bool" where
  "converts U R it =
     (case it of
        File name input write_ok \<Rightarrow> is_wav U name \<and> \<not> isl (convert_audio_file R input write_ok)
      | _ \<Rightarrow> False)"

definition successes :: "unicode_db \<Rightarrow> resampler \<Rightarrow> item list \<Rightarrow> nat" where
  "successes U R items = length (filter (converts U R) items)"

text \<open>A listing with a subdirectory whose target directory cannot be created.\<close>

definition aborts :: "item list \<Rightarrow> bool" where
  "aborts items =
     list_ex (\<lambda>it. case it of Dir name (Directory mkdir_ok listing) \<Rightarrow> \<not> mkdir_ok | _ \<Rightarrow> False) items"

text \<open>A mono file of one sample, for the examples.\<close>

definition one_sample :: "audio option" where
  "one_sample = Some \<lparr> data = [[1 / 2]], sample_rate = 44100 \<rparr>"

definition one_sample_out :: pcm16 where
  "one_sample_out = \<lparr> pcm_channels = [[31128]], pcm_rate = 44100 \<rparr>"

text \<open>Inputs of the worked examples.\<close>

definition five_samples :: audio where
  "five_samples = \<lparr> data = [[1 / 2, 0, 0, 0, 0]], sample_rate = 88200 \<rparr>"

definition stereo_pair :: audio where
  "stereo_pair = \<lparr> data = [[1 / 2, 0], [1 / 4, 0]], sample_rate = 48000 \<rparr>"

definition silence_96k :: audio where
  "silence_96k = \<lparr> data = [[0, 0, 0, 0], [0, 0, 0, 0]], sample_rate = 96000 \<rparr>"

definition one_silent_frame_96k :: audio where
  "one_silent_frame_96k = \<lparr> data = [[0]], sample_rate = 96000 \<rparr>"

definition empty_mono :: audio where
  "empty_mono = \<lparr> data = [[]], sample_rate = 44100 \<rparr>"

definition kick :: item where
  "kick = File (ascii ''kick.wav'') one_sample True"

definition snare :: item where
  "snare = File (ascii ''snare.wav'') one_sample True"

definition unreadable :: item where
  "unreadable = File (ascii ''bad.wav'') None True"

definition my_loops :: item where
  "my_loops = Dir (ascii ''My Loops'')
     (Directory True (Some [File (ascii ''a.WAV'') one_sample True,
                            File (ascii ''b.wav'') one_sample True]))"

declare process_directory.simps [simp del] process_items.simps [simp del]

section \<open>Properties of normalize_name\<close>

lemma set_collapse_underscores: "set (collapse_underscores s) \<subseteq> set s"
  by (induction s rule: collapse_underscores.induct) auto

lemma set_strip_underscores: "set (strip_underscores s) \<subseteq> set s"
proof -
  have "set (strip_underscores s) \<subseteq> set (dropWhile (\<lambda>c. c = 95) s)"
    unfolding strip_underscores_def using set_dropWhileD by fastforce
  also have "\<dots> \<subseteq> set s"
    using set_dropWhileD by fastforce
  finally show ?thesis .
qed

lemma clean_stem_word_chars: "list_all word_char (clean_stem U name)"
proof -
  have "set (clean_stem U name)
          \<subseteq> set (remove_disallowed (replace_spaces (py_nfkd U (path_stem name))))"
    unfolding clean_stem_def
    using set_strip_underscores set_collapse_underscores by (meson subset_trans)
  then show ?thesis
    by (auto simp: remove_disallowed_def list_all_iff)
qed

lemma digits10_digits: "list_all is_digit (digits10 n)"
proof (induction n rule: digits10.induct)
  case (1 n)
  show ?case
  proof (cases "n < 10")
    case True
    then show ?thesis by (simp add: digits10.simps [of n] is_digit_def)
  next
    case False
    have "n mod 10 < 10" by simp
    then have "is_digit (48 + n mod 10)" unfolding is_digit_def by linarith
    with False 1 show ?thesis by (simp add: digits10.simps [of n])
  qed
qed

lemma format_03d_digits: "0 \<le> c \<Longrightarrow> list_all is_digit (format_03d c)"
proof -
  assume "0 \<le> c"
  moreover have "list_all is_digit (digits10 (nat c))" by (rule digits10_digits)
  moreover have "is_digit 48" by (simp add: is_digit_def)
  ultimately show ?thesis
    by (auto simp: format_03d_def zero_pad_def list_all_iff)
qed

lemma format_03d_0: "format_03d 0 = ascii ''000''"
  by code_simp

text \<open>
  What does hold of every result, for the counters that \<open>process_directory\<close> passes:
  the part in front of the extension is a non-empty run of word characters.
\<close>

lemma normalize_name_stem_charset:
  assumes "0 \<le> c"
  shows "\<exists>stem. normalize_name U name c = stem @ extension U name
                \<and> stem \<noteq> [] \<and> list_all word_char stem"
proof -
  have d: "list_all word_char (format_03d c)"
    using format_03d_digits [OF assms] by (simp add: list_all_iff word_char_def)
  have u: "list_all word_char (ascii ''unnamed_'')"
    by (simp add: ascii_def word_char_def is_lower_def is_upper_def is_digit_def)
  show ?thesis
    using d u clean_stem_word_chars [of U name]
    by (auto simp: normalize_name_def Let_def word_char_def ascii_def)
qed

lemma normalize_name_counter:
  "0 < c \<Longrightarrow>
     normalize_name U name c
       = (if clean_stem U name = [] then ascii ''unnamed'' else clean_stem U name)
           @ [95] @ format_03d c @ extension U name"
  by (simp add: normalize_name_def ascii_def)

text \<open>
  C1.  The result of \<open>normalize_name\<close> is claimed to match
  \<open>^[a-zA-Z0-9_]+(\.[a-z0-9]+)?$\<close> for every name.  The extension is lower-cased but
  never filtered: for the directory name \<open>My.Samples 2024\<close> the code returns
  \<open>My.samples 2024\<close>, with a space, which does not match.
\<close>

theorem normalize_name_extension_unfiltered:
  "normalize_name sample_db (ascii ''My.Samples 2024'') 0 = ascii ''My.samples 2024''
   \<and> \<not> matches_charset (normalize_name sample_db (ascii ''My.Samples 2024'') 0)"
  by code_simp

text \<open>
  C2.  When the cleaned stem is empty, \<open>normalize_name\<close> with counter 0 returns
  \<open>unnamed_000\<close> followed by the lower-cased extension: the fallback carries the
  counter, also when it is 0.
\<close>

theorem unnamed_fallback:
  "clean_stem U name = [] \<Longrightarrow>
     normalize_name U name 0 = ascii ''unnamed_000'' @ extension U name"
  by (simp add: normalize_name_def format_03d_0 ascii_def)

theorem unnamed_fallback_witness:
  "clean_stem sample_db kirillitsa_fayl_wav = []
   \<and> normalize_name sample_db kirillitsa_fayl_wav 0 = ascii ''unnamed_000.wav''"
proof -
  have h: "clean_stem sample_db kirillitsa_fayl_wav = []" by code_simp
  have e: "extension sample_db kirillitsa_fayl_wav = ascii ''.wav''" by code_simp
  show ?thesis
    using h e unnamed_fallback [OF h] by (simp add: ascii_def)
qed

text \<open>
  The first scenario of the specification, as it is worded there, fails: the Cyrillic
  name has an empty cleaned stem, and the result is not \<open>unnamed.wav\<close>.
\<close>

theorem unnamed_fallback_counterexample:
  "clean_stem sample_db kirillitsa_fayl_wav = []
   \<and> normalize_name sample_db kirillitsa_fayl_wav 0 \<noteq> ascii ''unnamed.wav''"
  by code_simp

subsection \<open>Spaces and other whitespace\<close>
























section \<open>Properties of convert_audio_file\<close>

lemma astype_int16_in_range:
  "- 32768 \<le> trunc_zero x \<Longrightarrow> trunc_zero x \<le> 32767 \<Longrightarrow> astype_int16 x = trunc_zero x"
  by (simp add: astype_int16_def sint_sbintrunc' signed_take_bit_int_eq_self)

lemma trunc_zero_range:
  assumes "- 32767 \<le> x" "x \<le> 32767"
  shows "- 32767 \<le> trunc_zero x" "trunc_zero x \<le> 32767"
proof -
  have "\<lfloor>x\<rfloor> \<le> 32767" using assms(2) by (simp add: floor_le_iff) 
  moreover have "- 32767 \<le> \<lceil>x\<rceil>" using assms(1) by (simp add: le_ceiling_iff)
  moreover have "0 \<le> x \<Longrightarrow> 0 \<le> \<lfloor>x\<rfloor>" by simp
  moreover have "x < 0 \<Longrightarrow> \<lceil>x\<rceil> \<le> 0" by (simp add: ceiling_le_iff)
  ultimately show "- 32767 \<le> trunc_zero x" "trunc_zero x \<le> 32767"
    by (auto simp: trunc_zero_def)
qed

lemma round_range:
  assumes "- 32767 \<le> (x::rat)" "x \<le> 32767"
  shows "- 32767 \<le> round x" "round x \<le> 32767"
proof -
  show "- 32767 \<le> round x" using assms(1) unfolding round_def by (simp add: le_floor_iff)
  show "round x \<le> 32767" using assms(2) unfolding round_def by (simp add: floor_le_iff)
qed

lemma trunc_zero_near_round: "\<bar>trunc_zero x - round x\<bar> \<le> 1"
proof -
  have "\<lfloor>x\<rfloor> \<le> round x" unfolding round_def by (simp add: floor_mono)
  moreover have "round x \<le> \<lceil>x\<rceil>"
  proof -
    have "x \<le> of_int \<lceil>x\<rceil>" by (rule le_of_int_ceiling)
    then show ?thesis unfolding round_def floor_le_iff by linarith
  qed
  moreover have "\<lceil>x\<rceil> \<le> \<lfloor>x\<rfloor> + 1" using ceiling_diff_floor_le_1 [of x] by simp
  moreover have "\<lfloor>x\<rfloor> \<le> \<lceil>x\<rceil>" by (rule floor_le_ceiling)
  ultimately show ?thesis by (auto simp: trunc_zero_def)
qed

text \<open>
  C3.  The quantisation step maps a sample \<open>s\<close> of \<open>[-1, 1]\<close> to \<open>s * 32767\<close>
  with the fraction cut off: rounded towards zero, not to the nearest integer.  The
  result lies between \<open>-32767\<close> and \<open>32767\<close>, so that nothing has to be clamped,
  and it is at most 1 away from the rounded value of the specification.
\<close>

theorem quantization_truncates:
  assumes "- 1 \<le> s" "s \<le> 1"
  shows "to_16bit s = trunc_zero (s * 32767)
         \<and> - 32767 \<le> to_16bit s \<and> to_16bit s \<le> 32767
         \<and> \<bar>to_16bit s - spec_quantize s\<bar> \<le> 1"
proof -
  have x: "- 32767 \<le> s * 32767" "s * 32767 \<le> 32767" using assms by simp_all
  note t = trunc_zero_range [OF x]
  have q: "to_16bit s = trunc_zero (s * 32767)"
    unfolding to_16bit_def using t by (intro astype_int16_in_range) simp_all
  have "spec_quantize s = round (s * 32767)"
    unfolding spec_quantize_def using round_range [OF x] by simp
  then show ?thesis
    using q t trunc_zero_near_round [of "s * 32767"] by simp
qed

theorem quantization_truncates_witness:
  "- 1 \<le> (19 / 20 :: rat) \<and> (19 / 20 :: rat) \<le> 1 \<and> to_16bit (19 / 20) = 31128"
proof -
  have a: "- 1 \<le> (19 / 20 :: rat)" and b: "(19 / 20 :: rat) \<le> 1" by simp_all
  have "trunc_zero (19 / 20 * 32767) = 31128"
    by (simp add: trunc_zero_def floor_eq_iff)
  then show ?thesis
    using a b quantization_truncates [OF a b] by simp
qed

text \<open>
  The peak of every signal that is not silent is scaled to \<open>0.95\<close>; it is written
  as \<open>31128\<close>, and \<open>round(0.95 * 32767)\<close> is \<open>31129\<close>.
\<close>

theorem quantization_rounds_counterexample:
  "to_16bit (19 / 20) \<noteq> spec_quantize (19 / 20)"
proof -
  have "trunc_zero (19 / 20 * 32767) = 31128"
    by (simp add: trunc_zero_def floor_eq_iff)
  then have "to_16bit (19 / 20) = 31128"
    by (simp add: to_16bit_def astype_int16_in_range)
  moreover have "spec_quantize (19 / 20) = 31129"
    by (simp add: spec_quantize_def round_def floor_eq_iff)
  ultimately show ?thesis by simp
qed

lemma those_map_Some:
  "those (map f xs) = Some ys \<Longrightarrow> list_all2 (\<lambda>x y. f x = Some y) xs ys"
proof (induction xs arbitrary: ys)
  case Nil
  then show ?case by simp
next
  case (Cons x xs)
  then show ?case by (auto split: option.splits)
qed

lemma those_map_all_Some:
  "(\<And>x. x \<in> set xs \<Longrightarrow> f x = Some (g x)) \<Longrightarrow> those (map f xs) = Some (map g xs)"
  by (induction xs) auto

lemma list_all2_right:
  "list_all2 P xs ys \<Longrightarrow> (\<And>x y. P x y \<Longrightarrow> Q y) \<Longrightarrow> list_all Q ys"
  by (induction rule: list_all2_induct) auto

lemma resample_contractD: "resample_contract R \<Longrightarrow> R ch k = Some y \<Longrightarrow> length y = k"
  unfolding resample_contract_def by (erule allE [of _ ch], erule allE [of _ k]) simp

lemma resample_data_those:
  assumes "current \<noteq> target" "resample_data R d current target = Inr d'"
  shows "those (map (\<lambda>ch. R ch (num_samples (num_frames d) target current)) d) = Some d'"
proof (cases "those (map (\<lambda>ch. R ch (num_samples (num_frames d) target current)) d)")
  case None
  with assms show ?thesis by (simp add: resample_data_def split: if_splits)
next
  case (Some y)
  with assms show ?thesis by (simp add: resample_data_def split: if_splits)
qed

lemma resample_data_shape:
  assumes "resample_contract R" "current \<noteq> target" "resample_data R d current target = Inr d'"
  shows "list_all (\<lambda>ch. length ch = num_samples (num_frames d) target current) d'"
proof -
  let ?k = "num_samples (num_frames d) target current"
  have "list_all2 (\<lambda>x y. R x ?k = Some y) d d'"
    using resample_data_those [OF assms(2,3)] by (rule those_map_Some)
  then show ?thesis
    by (rule list_all2_right) (rule resample_contractD [OF assms(1)])
qed

lemma resample_data_length:
  assumes "resample_data R d current target = Inr d'"
  shows "length d' = length d"
proof (cases "current = target")
  case True
  with assms show ?thesis by (simp add: resample_data_def)
next
  case False
  have "list_all2 (\<lambda>x y. R x (num_samples (num_frames d) target current) = Some y) d d'"
    using resample_data_those [OF False assms] by (rule those_map_Some)
  then show ?thesis by (simp add: list_all2_lengthD)
qed

lemma np_scale: "0 < p \<Longrightarrow> np_multiply (np_divide x p) c = Finite (x / p * c)"
  by (simp add: np_divide_def np_multiply_def)

text \<open>
  The guard at work: whatever the input, no sample that leaves the normalisation is
  the result of a division by 0.
\<close>

lemma peak_normalize_Finite:
  assumes "peak_normalize d = Inr d'"
  shows "\<exists>e. d' = map (map Finite) e \<and> map length e = map length d"
proof (cases "peak d")
  case None
  with assms show ?thesis by (simp add: peak_normalize_def)
next
  case (Some p)
  show ?thesis
  proof (cases "p > 0")
    case True
    have "map (map (\<lambda>x. np_multiply (np_divide x p) (95 / 100))) d
            = map (map Finite) (map (map (\<lambda>x. x / p * (95 / 100))) d)"
      using True by (simp add: np_scale comp_def)
    moreover from assms Some True
    have "d' = map (map (\<lambda>x. np_multiply (np_divide x p) (95 / 100))) d"
      by (simp add: peak_normalize_def)
    ultimately have "d' = map (map Finite) (map (map (\<lambda>x. x / p * (95 / 100))) d)"
      by simp
    moreover have "map length (map (map (\<lambda>x. x / p * (95 / 100))) d) = map length d"
      by simp
    ultimately show ?thesis by blast
  next
    case False
    with assms Some have "d' = map (map Finite) d" by (simp add: peak_normalize_def)
    then show ?thesis by blast
  qed
qed

lemma those_map_Some_all: "those (map (\<lambda>x. Some (f x)) xs) = Some (map f xs)"
  by (induction xs) simp_all

lemma data_16bit_Finite: "data_16bit (map (map Finite) e) = Some (map (map to_16bit) e)"
  unfolding data_16bit_def by (simp add: comp_def to_16bit_np_def those_map_Some_all)

lemma convert_audio_file_Inr:
  assumes "convert_audio_file R (Some a) write_ok = Inr out"
  shows "\<exists>d e. resample_data R (data a) (sample_rate a) (target_sample_rate (sample_rate a)) = Inr d
           \<and> peak_normalize d = Inr (map (map Finite) e)
           \<and> map length e = map length d
           \<and> out = \<lparr> pcm_channels = map (map to_16bit) e,
                      pcm_rate = target_sample_rate (sample_rate a) \<rparr>
           \<and> write_ok"
proof (cases "resample_data R (data a) (sample_rate a) (target_sample_rate (sample_rate a))")
  case (Inl e)
  with assms show ?thesis by (simp add: convert_audio_file_def)
next
  case r: (Inr d)
  show ?thesis
  proof (cases "peak_normalize d")
    case (Inl e)
    with assms r show ?thesis by (simp add: convert_audio_file_def)
  next
    case (Inr d')
    from peak_normalize_Finite [OF Inr] obtain e where
      e: "d' = map (map Finite) e" "map length e = map length d"
      by blast
    have pn: "peak_normalize d = Inr (map (map Finite) e)" using Inr e(1) by simp
    have "write_ok \<and> out = \<lparr> pcm_channels = map (map to_16bit) e,
                               pcm_rate = target_sample_rate (sample_rate a) \<rparr>"
      using assms r pn
      by (cases write_ok) (simp_all add: convert_audio_file_def data_16bit_Finite)
    with r pn e(2) show ?thesis by blast
  qed
qed

lemma convert_audio_file_steps:
  assumes "resample_data R (data a) (sample_rate a) (target_sample_rate (sample_rate a)) = Inr d"
    and "peak_normalize d = Inr (map (map Finite) e)"
  shows "convert_audio_file R (Some a) True
           = Inr \<lparr> pcm_channels = map (map to_16bit) e,
                   pcm_rate = target_sample_rate (sample_rate a) \<rparr>"
  by (simp add: convert_audio_file_def assms data_16bit_Finite)

lemma resample_data_error:
  "resample_data R d current target = Inl e \<Longrightarrow> e = ZeroDivisionError \<or> e = ResampleError"
  by (auto simp: resample_data_def split: if_splits option.splits)

lemma peak_normalize_error: "peak_normalize d = Inl e \<Longrightarrow> e = ValueError"
  by (auto simp: peak_normalize_def split: if_splits option.splits)

text \<open>No input makes \<open>convert_audio_file\<close> cast a sample that is not finite.\<close>

lemma convert_never_undefined: "convert_audio_file R input write_ok \<noteq> Inl UndefinedCast"
proof (cases input)
  case None
  then show ?thesis by (simp add: convert_audio_file_def)
next
  case (Some a)
  show ?thesis
  proof (cases "resample_data R (data a) (sample_rate a) (target_sample_rate (sample_rate a))")
    case (Inl e)
    with Some resample_data_error [OF Inl] show ?thesis
      by (auto simp: convert_audio_file_def)
  next
    case r: (Inr d)
    show ?thesis
    proof (cases "peak_normalize d")
      case (Inl e)
      with Some r peak_normalize_error [OF Inl] show ?thesis
        by (simp add: convert_audio_file_def)
    next
      case (Inr d')
      from peak_normalize_Finite [OF Inr] obtain e where "d' = map (map Finite) e" by blast
      with Some r Inr show ?thesis
        by (cases write_ok) (simp_all add: convert_audio_file_def data_16bit_Finite)
    qed
  qed
qed

lemma num_samples_near_round:
  "int (num_samples n target current) \<le> spec_sample_count n target current
   \<and> spec_sample_count n target current \<le> int (num_samples n target current) + 1"
proof -
  define x :: rat where "x = of_nat (n * target) / of_nat current"
  have f: "\<lfloor>x\<rfloor> = int (num_samples n target current)"
    unfolding num_samples_def x_def by (simp only: floor_divide_of_nat_eq)
  have "x \<le> x + 1 / 2" by simp
  then have 1: "\<lfloor>x\<rfloor> \<le> round x" unfolding round_def by (rule floor_mono)
  have "x < of_int \<lfloor>x\<rfloor> + 1" by linarith
  then have "x + 1 / 2 < of_int (\<lfloor>x\<rfloor> + 1) + 1" by simp
  then have 2: "round x \<le> \<lfloor>x\<rfloor> + 1" unfolding round_def floor_le_iff .
  have "spec_sample_count n target current = round x"
    by (simp only: spec_sample_count_def x_def)
  with 1 2 f show ?thesis by simp
qed

text \<open>
  C4.  When the rate has to change, every channel of the output has exactly
  \<open>int(n * r_t / r_in)\<close> samples, the quotient with its fraction cut off.  This is
  the rounded quotient of the specification or one less.
\<close>

theorem resampled_length_is_truncated:
  assumes "resample_contract R"
    and "sample_rate a \<noteq> target_sample_rate (sample_rate a)"
    and "convert_audio_file R (Some a) write_ok = Inr out"
    and "k = num_samples (num_frames (data a)) (target_sample_rate (sample_rate a)) (sample_rate a)"
  shows "list_all (\<lambda>ch. length ch = k) (pcm_channels out)
         \<and> int k \<le> spec_sample_count (num_frames (data a)) (target_sample_rate (sample_rate a)) (sample_rate a)
         \<and> spec_sample_count (num_frames (data a)) (target_sample_rate (sample_rate a)) (sample_rate a) \<le> int k + 1"
proof -
  from convert_audio_file_Inr [OF assms(3)] obtain d d' where
    r: "resample_data R (data a) (sample_rate a) (target_sample_rate (sample_rate a)) = Inr d"
    and p: "map length d' = map length d"
    and o: "out = \<lparr> pcm_channels = map (map to_16bit) d', pcm_rate = target_sample_rate (sample_rate a) \<rparr>"
    by blast
  have "list_all (\<lambda>ch. length ch = k) d"
    unfolding assms(4) using resample_data_shape [OF assms(1,2) r] .
  then have "\<forall>n\<in>set (map length d). n = k" by (simp add: list_all_iff)
  then have "\<forall>n\<in>set (map length d'). n = k" by (simp only: p)
  then have "list_all (\<lambda>ch. length ch = k) (pcm_channels out)"
    by (simp add: o list_all_iff)
  then show ?thesis
    unfolding assms(4) using num_samples_near_round by blast
qed

text \<open>
  C5.  \<open>convert_audio_file\<close> of \<open>roland_sp404_local_automation.py\<close> writes as
  many channels as it has read, whenever it succeeds.
\<close>

theorem channel_count_preserved:
  assumes "convert_audio_file R (Some a) write_ok = Inr out"
  shows "length (pcm_channels out) = length (data a)"
proof -
  from convert_audio_file_Inr [OF assms] obtain d d' where
    r: "resample_data R (data a) (sample_rate a) (target_sample_rate (sample_rate a)) = Inr d"
    and p: "map length d' = map length d"
    and o: "out = \<lparr> pcm_channels = map (map to_16bit) d', pcm_rate = target_sample_rate (sample_rate a) \<rparr>"
    by blast
  have "length (map length d') = length (map length d)"
    by (simp only: p)
  then have "length d' = length d" by simp
  then show ?thesis by (simp add: o resample_data_length [OF r])
qed

lemma target_sample_rate_examples: "target_sample_rate 88200 = 48000" "target_sample_rate 44100 = 44100"
  "target_sample_rate 48000 = 48000" "target_sample_rate 96000 = 48000"
  by (simp_all add: target_sample_rate_def py_min_key_def)

lemma hold_resample_five: "hold_resample [1 / 2, 0, 0, 0, 0] 2 = Some [1 / 2, 0]"
  by (simp add: hold_resample_def upt_rec)

lemma num_samples_five: "num_samples 5 48000 88200 = 2"
  by (simp add: num_samples_def)

lemma resample_five: "resample_data hold_resample [[1 / 2, 0, 0, 0, 0]] 88200 48000 = Inr [[1 / 2, 0]]"
proof -
  have nf: "num_frames [[1 / 2, 0, 0, 0, 0]] = 5" by (simp add: num_frames_def)
  show ?thesis unfolding resample_data_def nf num_samples_five by (simp add: hold_resample_five)
qed

lemma peak_normalize_half:
  "peak_normalize [[1 / 2, 0]] = Inr [[Finite (19 / 20), Finite 0]]"
  by (simp add: peak_normalize_def peak_def py_max_def np_divide_def np_multiply_def)


lemma to_16bit_0: "to_16bit 0 = 0"
  by (simp add: to_16bit_def astype_int16_def trunc_zero_def)

lemma to_16bit_peak: "to_16bit (19 / 20) = 31128"
proof -
  have "trunc_zero (19 / 20 * 32767) = 31128"
    by (simp add: trunc_zero_def floor_eq_iff)
  then show ?thesis by (simp add: to_16bit_def astype_int16_in_range)
qed

lemma convert_five: "convert_audio_file hold_resample (Some \<lparr>data = [[1 / 2, 0, 0, 0, 0]], sample_rate = 88200\<rparr>) True
  = Inr \<lparr>pcm_channels = [[31128, 0]], pcm_rate = 48000\<rparr>"
  by (simp add: convert_audio_file_def target_sample_rate_examples resample_five
      peak_normalize_half data_16bit_def to_16bit_np_def to_16bit_0 to_16bit_peak)

lemma spec_sample_count_five: "spec_sample_count 5 48000 88200 = 3"
  by (simp add: spec_sample_count_def round_def floor_eq_iff)

lemma fold_max_zeros: "list_all (\<lambda>x. x = (0::rat)) xs \<Longrightarrow> fold max xs 0 = 0"
  by (induction xs) auto

lemma py_max_zeros:
  assumes "xs \<noteq> []" "list_all (\<lambda>x. x = 0) xs"
  shows "py_max (map abs xs) = Some 0"
proof (cases xs)
  case Nil
  with assms(1) show ?thesis by simp
next
  case (Cons x ys)
  with assms(2) have "x = 0" "list_all (\<lambda>x. x = 0) (map abs ys)"
    by (simp_all add: list_all_iff)
  then show ?thesis
    unfolding Cons py_max_def using fold_max_zeros by simp
qed

lemma silent_block:
  assumes "wf_audio a" "silent a"
  shows "data a = replicate (length (data a)) (replicate (num_frames (data a)) 0)"
proof -
  have "\<And>ch. ch \<in> set (data a) \<Longrightarrow> ch = replicate (num_frames (data a)) 0"
  proof -
    fix ch assume c: "ch \<in> set (data a)"
    with assms(1) have "length ch = num_frames (data a)"
      by (simp add: wf_audio_def list_all_iff)
    moreover from c assms(2) have "\<forall>x\<in>set ch. x = 0"
      by (simp add: silent_def list_all_iff)
    ultimately show "ch = replicate (num_frames (data a)) 0"
      by (metis replicate_length_same)
  qed
  then show ?thesis by (simp add: replicate_length_same)
qed

lemma peak_normalize_zeros:
  assumes "0 < c" "0 < m"
  shows "peak (replicate c (replicate m 0)) = Some 0"
    and "peak_normalize (replicate c (replicate m 0))
           = Inr (map (map Finite) (replicate c (replicate m 0)))"
proof -
  let ?xs = "concat (replicate c (replicate m (0::rat)))"
  have "replicate m (0::rat) \<noteq> []" using assms(2) by simp
  then have "?xs \<noteq> []" using assms(1) by (cases c) simp_all
  moreover have "list_all (\<lambda>x. x = 0) ?xs" by (auto simp: list_all_iff)
  ultimately show p: "peak (replicate c (replicate m 0)) = Some 0"
    unfolding peak_def by (rule py_max_zeros)
  show "peak_normalize (replicate c (replicate m 0))
          = Inr (map (map Finite) (replicate c (replicate m 0)))"
    unfolding peak_normalize_def p by simp
qed

text \<open>
  What the guard prevents: a sample divided by a peak of 0 is not a finite number, and
  its cast to 16 bits is not defined.
\<close>

lemma division_by_zero_peak:
  "np_multiply (np_divide x 0) c = NotFinite" "to_16bit_np NotFinite = None"
  by (simp_all add: np_divide_def np_multiply_def to_16bit_np_def)

lemma resample_data_zeros:
  assumes "resample_silence R" "0 < n" "0 < c"
    and "current = target \<or> 0 < num_samples n target current"
  shows "\<exists>m>0. resample_data R (replicate c (replicate n 0)) current target
                 = Inr (replicate c (replicate m 0))"
proof (cases "current = target")
  case True
  then show ?thesis using assms(2) by (auto simp: resample_data_def)
next
  case False
  let ?k = "num_samples n target current"
  from False assms(4) have k: "0 < ?k" by simp
  then have z: "current \<noteq> 0" by (auto simp: num_samples_def intro: ccontr)
  have nf: "num_frames (replicate c (replicate n (0::rat))) = n"
    using assms(3) by (cases c) (simp_all add: num_frames_def)
  have e: "R (replicate n 0) ?k = Some (replicate ?k 0)"
    using assms(1,2) k unfolding resample_silence_def by blast
  have "those (map (\<lambda>ch. R ch ?k) (replicate c (replicate n 0)))
               = Some (map (\<lambda>ch. replicate ?k 0) (replicate c (replicate n 0)))"
    using those_map_all_Some [of "replicate c (replicate n 0)" "\<lambda>ch. R ch ?k"
        "\<lambda>ch. replicate ?k 0"] e
    by simp
  then have "resample_data R (replicate c (replicate n 0)) current target
               = Inr (replicate c (replicate ?k 0))"
    using False z by (simp add: resample_data_def nf)
  with k show ?thesis by blast
qed

text \<open>
  C9.  A silent input with at least one frame, and with at least one frame left after
  the resampling, is converted.  Its peak is exactly 0, so the scaling step is
  skipped: the normalisation passes the samples on as they are, none of them is
  divided by the zero peak (none is \<open>NotFinite\<close>), and the output is silent, with the
  channels of the input.
\<close>

theorem silence_stays_silent:
  assumes "wf_audio a" "silent a" "0 < num_frames (data a)" "resample_silence R"
    and "sample_rate a = target_sample_rate (sample_rate a)
         \<or> 0 < num_samples (num_frames (data a)) (target_sample_rate (sample_rate a)) (sample_rate a)"
  shows "\<exists>d out. resample_data R (data a) (sample_rate a) (target_sample_rate (sample_rate a)) = Inr d
               \<and> peak d = Some 0
               \<and> peak_normalize d = Inr (map (map Finite) d)
               \<and> convert_audio_file R (Some a) True = Inr out
               \<and> list_all (list_all (\<lambda>x. x = 0)) (pcm_channels out)
               \<and> length (pcm_channels out) = length (data a)"
proof -
  let ?c = "length (data a)" and ?n = "num_frames (data a)"
  have c: "0 < ?c" using assms(1) by (simp add: wf_audio_def)
  have d: "data a = replicate ?c (replicate ?n 0)" by (rule silent_block [OF assms(1,2)])
  from resample_data_zeros [OF assms(4) assms(3) c assms(5)] obtain m where
    m: "0 < m"
    and r: "resample_data R (replicate ?c (replicate ?n 0)) (sample_rate a)
              (target_sample_rate (sample_rate a)) = Inr (replicate ?c (replicate m 0))"
    by blast
  let ?d = "replicate ?c (replicate m (0::rat))"
  have r': "resample_data R (data a) (sample_rate a) (target_sample_rate (sample_rate a)) = Inr ?d"
    using r d by simp
  note p = peak_normalize_zeros [OF c m]
  have o: "convert_audio_file R (Some a) True
          = Inr \<lparr> pcm_channels = map (map to_16bit) ?d,
                  pcm_rate = target_sample_rate (sample_rate a) \<rparr>"
    by (rule convert_audio_file_steps [OF r' p(2)])
  have "list_all (list_all (\<lambda>x. x = 0)) (map (map to_16bit) ?d)"
    by (simp add: to_16bit_0 list_all_iff)
  moreover have "length (map (map to_16bit) ?d) = length (data a)" by simp
  ultimately show ?thesis using r' p o by force
qed

lemma hold_resample_contract: "resample_contract hold_resample"
  by (simp add: resample_contract_def hold_resample_def)

lemma hold_resample_silence: "resample_silence hold_resample"
proof -
  have "hold_resample (replicate n 0) k = Some (replicate k 0)" if "0 < n" "0 < k" for n k
  proof -
    have "replicate n (0::rat) ! (i * n div k) = 0" if "i < k" for i
    proof -
      have "i * n < k * n" using that \<open>0 < n\<close> by simp
      then have "i * n div k < n" using \<open>0 < k\<close>
        by (simp add: less_mult_imp_div_less mult.commute)
      then show ?thesis by simp
    qed
    then have "map (\<lambda>i. replicate n (0::rat) ! (i * n div k)) [0..<k] = replicate k 0"
      by (intro nth_equalityI) simp_all
    then show ?thesis using that by (simp add: hold_resample_def)
  qed
  then show ?thesis unfolding resample_silence_def by blast
qed

lemma convert_five_samples:
  "convert_audio_file hold_resample (Some five_samples) True
     = Inr \<lparr> pcm_channels = [[31128, 0]], pcm_rate = 48000 \<rparr>"
  unfolding five_samples_def by (rule convert_five)

lemma to_16bit_half_peak: "to_16bit (19 / 40) = 15564"
proof -
  have "trunc_zero (19 / 40 * 32767) = 15564"
    by (simp add: trunc_zero_def floor_eq_iff)
  then show ?thesis by (simp add: to_16bit_def astype_int16_in_range)
qed

lemma convert_stereo_pair:
  "convert_audio_file hold_resample (Some stereo_pair) True
     = Inr \<lparr> pcm_channels = [[31128, 0], [15564, 0]], pcm_rate = 48000 \<rparr>"
proof -
  have r: "resample_data hold_resample [[1 / 2, 0], [1 / 4, 0]] 48000 48000
             = Inr [[1 / 2, 0], [1 / 4, 0]]"
    by (simp add: resample_data_def)
  have p: "peak_normalize [[1 / 2, 0], [1 / 4, 0]]
             = Inr [[Finite (19 / 20), Finite 0], [Finite (19 / 40), Finite 0]]"
    by (simp add: peak_normalize_def peak_def py_max_def np_divide_def np_multiply_def)
  show ?thesis
    by (simp add: convert_audio_file_def stereo_pair_def target_sample_rate_examples r p
        data_16bit_def to_16bit_np_def to_16bit_0 to_16bit_peak to_16bit_half_peak)
qed

lemma smb_convert_stereo_pair:
  "smb_convert_audio_file hold_resample (Some stereo_pair) True
     = Inr \<lparr> pcm_channels = [[31128, 0]], pcm_rate = 48000 \<rparr>"
proof -
  have r: "resample_data hold_resample [[1 / 2, 0], [1 / 4, 0]] 48000 48000
             = Inr [[1 / 2, 0], [1 / 4, 0]]"
    by (simp add: resample_data_def)
  have d: "downmix [[1 / 2, 0], [1 / 4, 0]] = [[3 / 8, 0]]"
    by (simp add: downmix_def num_frames_def upt_rec)
  have p: "peak_normalize [[3 / 8, 0]] = Inr [[Finite (19 / 20), Finite 0]]"
    by (simp add: peak_normalize_def peak_def py_max_def np_divide_def np_multiply_def)
  show ?thesis
    by (simp add: smb_convert_audio_file_def stereo_pair_def target_sample_rate_examples r d p
        data_16bit_def to_16bit_np_def to_16bit_0 to_16bit_peak)
qed

theorem resampled_length_is_truncated_witness:
  "resample_contract hold_resample
   \<and> sample_rate five_samples \<noteq> target_sample_rate (sample_rate five_samples)
   \<and> convert_audio_file hold_resample (Some five_samples) True
       = Inr \<lparr> pcm_channels = [[31128, 0]], pcm_rate = 48000 \<rparr>
   \<and> list_all (\<lambda>ch. length ch = 2) [[31128, 0 :: int]]
   \<and> 2 \<le> spec_sample_count 5 48000 88200 \<and> spec_sample_count 5 48000 88200 \<le> 3"
proof -
  have nf: "num_frames (data five_samples) = 5" by (simp add: five_samples_def num_frames_def)
  have sr: "sample_rate five_samples = 88200" by (simp add: five_samples_def)
  have r: "sample_rate five_samples \<noteq> target_sample_rate (sample_rate five_samples)"
    unfolding sr target_sample_rate_examples by simp
  have k: "2 = num_samples (num_frames (data five_samples))
                 (target_sample_rate (sample_rate five_samples)) (sample_rate five_samples)"
    unfolding nf sr target_sample_rate_examples num_samples_five by simp
  have "list_all (\<lambda>ch. length ch = 2) [[31128, 0 :: int]]
        \<and> 2 \<le> spec_sample_count 5 48000 88200 \<and> spec_sample_count 5 48000 88200 \<le> 3"
    using resampled_length_is_truncated [OF hold_resample_contract r convert_five_samples k]
    unfolding nf sr target_sample_rate_examples by simp
  then show ?thesis
    using hold_resample_contract r convert_five_samples by simp
qed

text \<open>
  Five samples at 88200 Hz are resampled to 48000 Hz: the output has
  \<open>int(2.72) = 2\<close> samples, and the rounded quotient is 3.
\<close>

theorem resampled_length_round_counterexample:
  "sample_rate five_samples \<noteq> target_sample_rate (sample_rate five_samples)
   \<and> convert_audio_file hold_resample (Some five_samples) True
       = Inr \<lparr> pcm_channels = [[31128, 0]], pcm_rate = 48000 \<rparr>
   \<and> spec_sample_count (num_frames (data five_samples))
        (target_sample_rate (sample_rate five_samples)) (sample_rate five_samples) = 3"
proof -
  have nf: "num_frames (data five_samples) = 5" by (simp add: five_samples_def num_frames_def)
  have sr: "sample_rate five_samples = 88200" by (simp add: five_samples_def)
  show ?thesis
    unfolding nf sr target_sample_rate_examples spec_sample_count_five using convert_five_samples by simp
qed

theorem channel_count_preserved_witness:
  "convert_audio_file hold_resample (Some stereo_pair) True
     = Inr \<lparr> pcm_channels = [[31128, 0], [15564, 0]], pcm_rate = 48000 \<rparr>
   \<and> length (data stereo_pair) = 2"
  using channel_count_preserved [OF convert_stereo_pair] convert_stereo_pair by simp

text \<open>
  \<open>convert_audio_file\<close> of \<open>roland_sp404_automation.py\<close> writes one channel for a
  stereo input.
\<close>

theorem smb_downmix_counterexample:
  "smb_convert_audio_file hold_resample (Some stereo_pair) True
     = Inr \<lparr> pcm_channels = [[31128, 0]], pcm_rate = 48000 \<rparr>
   \<and> length (data stereo_pair) = 2"
  using smb_convert_stereo_pair by (simp add: stereo_pair_def)

theorem silence_stays_silent_witness:
  "wf_audio silence_96k \<and> silent silence_96k \<and> 0 < num_frames (data silence_96k)
   \<and> resample_silence hold_resample
   \<and> 0 < num_samples (num_frames (data silence_96k))
           (target_sample_rate (sample_rate silence_96k)) (sample_rate silence_96k)
   \<and> (\<exists>d out. resample_data hold_resample (data silence_96k) (sample_rate silence_96k)
                 (target_sample_rate (sample_rate silence_96k)) = Inr d
            \<and> peak d = Some 0
            \<and> peak_normalize d = Inr (map (map Finite) d)
            \<and> convert_audio_file hold_resample (Some silence_96k) True = Inr out
            \<and> list_all (list_all (\<lambda>x. x = 0)) (pcm_channels out)
            \<and> length (pcm_channels out) = length (data silence_96k))"
proof -
  have w: "wf_audio silence_96k" by (simp add: wf_audio_def silence_96k_def num_frames_def)
  have s: "silent silence_96k" by (simp add: silent_def silence_96k_def)
  have n: "0 < num_frames (data silence_96k)" by (simp add: silence_96k_def num_frames_def)
  have k: "0 < num_samples (num_frames (data silence_96k))
                   (target_sample_rate (sample_rate silence_96k)) (sample_rate silence_96k)"
    by (simp add: silence_96k_def target_sample_rate_examples num_frames_def num_samples_def)
  then have k': "sample_rate silence_96k = target_sample_rate (sample_rate silence_96k)
           \<or> 0 < num_samples (num_frames (data silence_96k))
                   (target_sample_rate (sample_rate silence_96k)) (sample_rate silence_96k)"
    by (rule disjI2)
  show ?thesis
    using w s n k hold_resample_silence
      silence_stays_silent [OF w s n hold_resample_silence k']
    by blast
qed

lemma one_silent_frame_resample:
  "resample_data R (data one_silent_frame_96k) (sample_rate one_silent_frame_96k)
     (target_sample_rate (sample_rate one_silent_frame_96k))
   = (case R [0] 0 of None \<Rightarrow> Inl ResampleError | Some y \<Rightarrow> Inr [y])"
proof -
  have n: "num_samples (num_frames [[0]]) 48000 96000 = 0"
    by (simp add: num_frames_def num_samples_def)
  show ?thesis
    unfolding one_silent_frame_96k_def
    by (cases "R [0] 0") (simp_all add: target_sample_rate_examples resample_data_def n)
qed

text \<open>
  One silent frame at 96000 Hz is to be resampled to \<open>int(0.5) = 0\<close> samples.
  Whether the library raises or returns an empty array, the conversion fails.
\<close>

lemma one_silent_frame_fails:
  assumes "resample_contract R"
  shows "isl (convert_audio_file R (Some one_silent_frame_96k) True)"
proof (cases "R [0] 0")
  case None
  then show ?thesis
    by (simp add: convert_audio_file_def one_silent_frame_resample)
next
  case (Some y)
  then have "y = []" using resample_contractD [OF assms Some] by simp
  with Some show ?thesis
    by (simp add: convert_audio_file_def one_silent_frame_resample peak_normalize_def peak_def
        py_max_def)
qed

text \<open>
  Two silent inputs that are not converted: a file without frames (\<open>np.max\<close> raises
  on the empty array), and the single silent frame at 96000 Hz.
\<close>

theorem silent_input_fails_counterexample:
  "silent empty_mono
   \<and> convert_audio_file hold_resample (Some empty_mono) True = Inl ValueError
   \<and> silent one_silent_frame_96k
   \<and> convert_audio_file hold_resample (Some one_silent_frame_96k) True = Inl ResampleError"
proof -
  have "convert_audio_file hold_resample (Some empty_mono) True = Inl ValueError"
    by (simp add: empty_mono_def convert_audio_file_def target_sample_rate_examples resample_data_def
      peak_normalize_def peak_def py_max_def)
  moreover have "convert_audio_file hold_resample (Some one_silent_frame_96k) True
                   = Inl ResampleError"
    by (simp add: convert_audio_file_def one_silent_frame_resample hold_resample_def)
  moreover have "silent empty_mono" "silent one_silent_frame_96k"
    by (simp_all add: silent_def empty_mono_def one_silent_frame_96k_def)
  ultimately show ?thesis by simp
qed

section \<open>Properties of process_directory\<close>

lemma process_items_Nil: "process_items U R t c [] = []"
  by (simp add: process_items.simps)

lemma process_items_File_ok:
  "is_wav U name \<Longrightarrow> convert_audio_file R input w = Inr out \<Longrightarrow>
     process_items U R t c (File name input w # rest)
       = Wrote t (normalize_name U name c) out # process_items U R t (c + 1) rest"
  by (simp add: process_items.simps)

lemma process_items_File_fail:
  "is_wav U name \<Longrightarrow> convert_audio_file R input w = Inl e \<Longrightarrow>
     process_items U R t c (File name input w # rest)
       = ConversionError name # process_items U R t c rest"
  by (simp add: process_items.simps)

lemma process_items_File_skip:
  "\<not> is_wav U name \<Longrightarrow>
     process_items U R t c (File name input w # rest)
       = SkippedNonWav name # process_items U R t c rest"
  by (simp add: process_items.simps)

lemma process_items_Other:
  "process_items U R t c (Other name # rest) = process_items U R t c rest"
  by (simp add: process_items.simps)

lemma process_directory_raised:
  "snd (process_directory U R (Directory mkdir_ok listing) t) = (\<not> mkdir_ok)"
  by (cases listing) (simp_all add: process_directory.simps)

lemma process_directory_listing:
  "process_directory U R (Directory True (Some items)) t = (process_items U R t 0 items, False)"
  by (simp add: process_directory.simps)

lemma process_items_Dir:
  "process_items U R t c (Dir name sub # rest) =
     (if snd (process_directory U R sub (t @ [normalize_name U name 0]))
      then fst (process_directory U R sub (t @ [normalize_name U name 0])) @ [DirectoryError t]
      else fst (process_directory U R sub (t @ [normalize_name U name 0]))
             @ process_items U R t c rest)"
  by (cases "process_directory U R sub (t @ [normalize_name U name 0])")
    (simp add: process_items.simps)

lemma writes_append: "writes (xs @ ys) = writes xs @ writes ys"
  by (simp add: writes_def)

lemma writes_Cons:
  "writes (Wrote p n out # evs) = Wrote p n out # writes evs"
  "writes (ConversionError n # evs) = writes evs"
  "writes (SkippedNonWav n # evs) = writes evs"
  "writes (DirectoryError p # evs) = writes evs"
  by (simp_all add: writes_def is_write_def)

lemma failed_file_leaves_no_trace:
  assumes "is_wav U name" "convert_audio_file R input w = Inl e"
  shows "writes (process_items U R t c (pre @ File name input w # rest))
           = writes (process_items U R t c (pre @ rest))"
proof (induction pre arbitrary: c)
  case Nil
  show ?case by (simp add: process_items_File_fail [OF assms] writes_Cons)
next
  case (Cons it pre)
  show ?case
  proof (cases it)
    case (File n i w')
    show ?thesis
    proof (cases "is_wav U n")
      case True
      show ?thesis
      proof (cases "convert_audio_file R i w'")
        case (Inl e')
        show ?thesis
          by (simp add: File process_items_File_fail [OF True Inl] writes_Cons Cons.IH)
      next
        case (Inr out)
        show ?thesis
          by (simp add: File process_items_File_ok [OF True Inr] writes_Cons Cons.IH)
      qed
    next
      case False
      show ?thesis
        by (simp add: File process_items_File_skip [OF False] writes_Cons Cons.IH)
    qed
  next
    case (Dir n sub)
    show ?thesis
      by (simp add: Dir process_items_Dir writes_append Cons.IH)
  next
    case (Other n)
    show ?thesis by (simp add: Other process_items_Other Cons.IH)
  qed
qed

lemma successes_Cons:
  "successes U R (it # items) = (if converts U R it then 1 else 0) + successes U R items"
  by (simp add: successes_def)

lemma process_items_append:
  assumes "\<not> aborts pre"
  shows "process_items U R t c (pre @ post)
           = process_items U R t c pre
               @ process_items U R t (c + int (successes U R pre)) post"
  using assms
proof (induction pre arbitrary: c)
  case Nil
  show ?case by (simp add: process_items_Nil successes_def)
next
  case (Cons it pre)
  from Cons.prems have na: "\<not> aborts pre" by (simp add: aborts_def)
  note IH = Cons.IH [OF na]
  show ?case
  proof (cases it)
    case (File n i w')
    show ?thesis
    proof (cases "is_wav U n")
      case True
      show ?thesis
      proof (cases "convert_audio_file R i w'")
        case (Inl e')
        have "\<not> converts U R it" by (simp add: File converts_def Inl)
        then show ?thesis
          by (simp add: File process_items_File_fail [OF True Inl] successes_Cons IH)
      next
        case (Inr out)
        have "converts U R it" by (simp add: File converts_def Inr True)
        then show ?thesis
          by (simp add: File process_items_File_ok [OF True Inr] successes_Cons
              IH [of "c + 1"] add.assoc)
      qed
    next
      case False
      have "\<not> converts U R it" by (simp add: File converts_def False)
      then show ?thesis
        by (simp add: File process_items_File_skip [OF False] successes_Cons IH)
    qed
  next
    case (Dir n sub)
    obtain ok l where sub: "sub = Directory ok l" by (cases sub)
    from Cons.prems have ok by (simp add: aborts_def Dir sub)
    then have s: "\<not> snd (process_directory U R sub (t @ [normalize_name U n 0]))"
      by (simp add: sub process_directory_raised)
    have "\<not> converts U R it" by (simp add: Dir converts_def)
    then show ?thesis
      by (simp add: Dir process_items_Dir s successes_Cons IH)
  next
    case (Other n)
    have "\<not> converts U R it" by (simp add: Other converts_def)
    then show ?thesis by (simp add: Other process_items_Other successes_Cons IH)
  qed
qed

lemma convert_one_sample:
  "convert_audio_file hold_resample one_sample True = Inr one_sample_out"
proof -
  have r: "resample_data hold_resample [[1 / 2]] 44100 44100 = Inr [[1 / 2]]"
    by (simp add: resample_data_def)
  have p: "peak_normalize [[1 / 2]] = Inr [[Finite (19 / 20)]]"
    by (simp add: peak_normalize_def peak_def py_max_def np_divide_def np_multiply_def)
  show ?thesis
    by (simp add: convert_audio_file_def one_sample_def one_sample_out_def
        target_sample_rate_examples r p data_16bit_def to_16bit_np_def to_16bit_peak)
qed

lemma convert_unreadable: "convert_audio_file hold_resample None True = Inl ReadError"
  by (simp add: convert_audio_file_def)

lemma example_is_wav:
  "is_wav sample_db (ascii ''kick.wav'')" "is_wav sample_db (ascii ''snare.wav'')"
  "is_wav sample_db (ascii ''bad.wav'')" "is_wav sample_db (ascii ''a.WAV'')"
  "is_wav sample_db (ascii ''b.wav'')"
  by code_simp+

lemma example_names:
  "normalize_name sample_db (ascii ''kick.wav'') 0 = ascii ''kick.wav''"
  "normalize_name sample_db (ascii ''snare.wav'') 1 = ascii ''snare_001.wav''"
  "normalize_name sample_db (ascii ''My Loops'') 0 = ascii ''My_Loops''"
  "normalize_name sample_db (ascii ''a.WAV'') 0 = ascii ''a.wav''"
  "normalize_name sample_db (ascii ''b.wav'') 1 = ascii ''b_001.wav''"
  by code_simp+

lemma example_listing:
  "process_items sample_db hold_resample t 0 [kick] = [Wrote t (ascii ''kick.wav'') one_sample_out]"
  "process_items sample_db hold_resample t 1 [snare]
     = [Wrote t (ascii ''snare_001.wav'') one_sample_out]"
  "process_items sample_db hold_resample t 0
       [File (ascii ''a.WAV'') one_sample True, File (ascii ''b.wav'') one_sample True]
     = [Wrote t (ascii ''a.wav'') one_sample_out, Wrote t (ascii ''b_001.wav'') one_sample_out]"
  by (simp_all add: kick_def snare_def process_items_File_ok [OF _ convert_one_sample]
      example_is_wav example_names process_items_Nil)

lemma example_successes: "successes sample_db hold_resample [kick] = 1" "\<not> aborts [kick]"
  by (simp_all add: successes_def converts_def kick_def example_is_wav convert_one_sample
      aborts_def)

text \<open>
  C7.  When \<open>convert_audio_file\<close> fails on a \<open>.wav\<close> entry, the loop logs the error
  and goes on with the remaining entries, with the counter it had before the attempt.
  Wherever the entry stands in the listing, the files written are those written for
  the listing without it.
\<close>

theorem failed_conversion_is_skipped:
  assumes "is_wav U name" "convert_audio_file R input write_ok = Inl e"
  shows "process_items U R t c (File name input write_ok # rest)
           = ConversionError name # process_items U R t c rest
         \<and> writes (process_items U R t c (pre @ File name input write_ok # rest))
           = writes (process_items U R t c (pre @ rest))"
  using process_items_File_fail [OF assms] failed_file_leaves_no_trace [OF assms] by simp

lemma example_kick_snare:
  "process_items sample_db hold_resample t 0 ([kick] @ [snare])
     = [Wrote t (ascii ''kick.wav'') one_sample_out,
        Wrote t (ascii ''snare_001.wav'') one_sample_out]"
proof -
  have "process_items sample_db hold_resample t 0 ([kick] @ [snare])
          = process_items sample_db hold_resample t 0 [kick]
              @ process_items sample_db hold_resample t
                  (0 + int (successes sample_db hold_resample [kick])) [snare]"
    by (rule process_items_append [OF example_successes(2)])
  then show ?thesis by (simp add: example_successes(1) example_listing)
qed

theorem failed_conversion_is_skipped_witness:
  "is_wav sample_db (ascii ''bad.wav'')
   \<and> convert_audio_file hold_resample None True = Inl ReadError
   \<and> writes (process_items sample_db hold_resample [ascii ''IMPORT''] 0 [kick, unreadable, snare])
       = [Wrote [ascii ''IMPORT''] (ascii ''kick.wav'') one_sample_out,
          Wrote [ascii ''IMPORT''] (ascii ''snare_001.wav'') one_sample_out]"
proof -
  have "writes (process_items sample_db hold_resample [ascii ''IMPORT''] 0 ([kick] @ [snare]))
          = [Wrote [ascii ''IMPORT''] (ascii ''kick.wav'') one_sample_out,
             Wrote [ascii ''IMPORT''] (ascii ''snare_001.wav'') one_sample_out]"
    unfolding example_kick_snare by (simp add: writes_def is_write_def)
  then show ?thesis
    using failed_conversion_is_skipped [OF example_is_wav(3) convert_unreadable,
        of "[ascii ''IMPORT'']" 0 "[snare]" "[kick]"]
      example_is_wav(3) convert_unreadable
    by (simp add: unreadable_def)
qed

text \<open>
  C8.  Every call of \<open>process_directory\<close> runs its loop with a counter that starts
  at 0.  For a subdirectory met anywhere in a listing, the name is normalized with
  counter 0, its entries are processed with a counter starting at 0 whatever the
  counter of the enclosing loop is, and the enclosing loop goes on with the counter
  it had: the start value plus the files converted before the subdirectory.
\<close>

theorem file_counter_is_local:
  assumes "\<not> aborts pre"
  shows "process_directory U R (Directory True (Some items)) t
           = (process_items U R t 0 items, False)
         \<and> process_items U R t c (pre @ Dir name (Directory True (Some sub)) # post)
           = process_items U R t c pre
               @ process_items U R (t @ [normalize_name U name 0]) 0 sub
               @ process_items U R t (c + int (successes U R pre)) post"
proof -
  have "process_items U R t c' (Dir name (Directory True (Some sub)) # post)
          = process_items U R (t @ [normalize_name U name 0]) 0 sub @ process_items U R t c' post"
    for c'
    by (simp add: process_items_Dir process_directory_listing)
  then show ?thesis
    by (simp add: process_directory_listing process_items_append [OF assms])
qed

theorem file_counter_is_local_witness:
  "\<not> aborts [kick]
   \<and> process_items sample_db hold_resample [ascii ''IMPORT''] 0 [kick, my_loops, snare]
       = [Wrote [ascii ''IMPORT''] (ascii ''kick.wav'') one_sample_out,
          Wrote [ascii ''IMPORT'', ascii ''My_Loops''] (ascii ''a.wav'') one_sample_out,
          Wrote [ascii ''IMPORT'', ascii ''My_Loops''] (ascii ''b_001.wav'') one_sample_out,
          Wrote [ascii ''IMPORT''] (ascii ''snare_001.wav'') one_sample_out]"
  using file_counter_is_local [OF example_successes(2), of sample_db hold_resample
      "[]" "[ascii ''IMPORT'']" 0 "ascii ''My Loops''"
      "[File (ascii ''a.WAV'') one_sample True, File (ascii ''b.wav'') one_sample True]"
      "[snare]"]
    example_successes(2)
  by (simp add: my_loops_def example_successes(1) example_listing example_names)

text \<open>
  C10.  A \<open>.wav\<close> file that is converted after at least one other conversion of the
  same directory has succeeded is written with the counter suffix, whatever its name
  is: the suffix is the number of conversions that succeeded before it.
\<close>

theorem counter_advances_on_every_success:
  assumes "\<not> aborts pre" "0 < successes U R pre"
    and "is_wav U name" "convert_audio_file R input write_ok = Inr out"
  shows "process_items U R t 0 (pre @ File name input write_ok # post)
           = process_items U R t 0 pre
               @ Wrote t ((if clean_stem U name = [] then ascii ''unnamed'' else clean_stem U name)
                          @ [95] @ format_03d (int (successes U R pre)) @ extension U name) out
               # process_items U R t (int (successes U R pre) + 1) post"
proof -
  have "0 < int (successes U R pre)" using assms(2) by simp
  then show ?thesis
    by (simp add: process_items_append [OF assms(1)] process_items_File_ok [OF assms(3,4)]
        normalize_name_counter)
qed

theorem counter_advances_on_every_success_witness:
  "\<not> aborts [kick] \<and> 0 < successes sample_db hold_resample [kick]
   \<and> clean_stem sample_db (ascii ''kick.wav'') \<noteq> clean_stem sample_db (ascii ''snare.wav'')
   \<and> process_items sample_db hold_resample [ascii ''IMPORT''] 0 [kick, snare]
       = [Wrote [ascii ''IMPORT''] (ascii ''kick.wav'') one_sample_out,
          Wrote [ascii ''IMPORT''] (ascii ''snare_001.wav'') one_sample_out]"
proof -
  have p: "0 < successes sample_db hold_resample [kick]" by (simp add: example_successes)
  have c: "clean_stem sample_db (ascii ''kick.wav'') = ascii ''kick''"
    "clean_stem sample_db (ascii ''snare.wav'') = ascii ''snare''"
    by code_simp+
  have ne: "clean_stem sample_db (ascii ''kick.wav'') \<noteq> clean_stem sample_db (ascii ''snare.wav'')"
    unfolding c by (simp add: ascii_def)
  have n: "(if clean_stem sample_db (ascii ''snare.wav'') = [] then ascii ''unnamed''
            else clean_stem sample_db (ascii ''snare.wav''))
           @ [95] @ format_03d (int (successes sample_db hold_resample [kick]))
           @ extension sample_db (ascii ''snare.wav'') = ascii ''snare_001.wav''"
    unfolding example_successes(1)
    using normalize_name_counter [of 1 sample_db "ascii ''snare.wav''"] example_names(2)
    by simp
  have "process_items sample_db hold_resample [ascii ''IMPORT''] 0
          ([kick] @ File (ascii ''snare.wav'') one_sample True # [])
        = [Wrote [ascii ''IMPORT''] (ascii ''kick.wav'') one_sample_out,
           Wrote [ascii ''IMPORT''] (ascii ''snare_001.wav'') one_sample_out]"
    unfolding counter_advances_on_every_success [OF example_successes(2) p example_is_wav(2)
        convert_one_sample] n
    by (simp add: example_listing process_items_Nil)
  then show ?thesis
    using example_successes(2) p ne by (simp add: snare_def)
qed

end
